theory Spec2Isabelle
  imports Complex_Main
begin

section \<open>Exploration line of the review navigator (src/hooks/useChessGame.ts)\<close>

text \<open>
  The hook keeps its state in seven \<open>useState\<close> cells. The model is one record of those
  cells; every callback is a function from the state before to the state after. JavaScript
  numbers used as indices are modelled as \<open>int\<close> (the cursor starts at \<open>-1\<close>), and an
  evaluation that has not arrived yet (\<open>null\<close>) is \<open>None\<close>. A callback reads the cells of
  the render in which it was created; the model reads them from the state it is applied to,
  that is, the component has re-rendered between two calls.
\<close>

record VariationNode =
  v_san :: string
  v_fen :: string
  v_eval :: "int option"

datatype orientation = orient_white | orient_black

record nav_state =
  currentMoveIndex :: int
  orientation :: orientation
  showTimestamps :: bool
  isVariation :: bool
  variationMoves :: "VariationNode list"
  variationIndex :: int
  variationBaseIndex :: int

text \<open>\<open>prev.slice(0, e)\<close>: a negative end counts from the end of the array.\<close>

definition slice0 :: "'a list \<Rightarrow> int \<Rightarrow> 'a list" where
  "slice0 xs e =
     (let n = int (length xs);
          k = (if e < 0 then max (n + e) 0 else min e n)
      in take (nat k) xs)"

definition initialNav :: nav_state where
  "initialNav =
     \<lparr>currentMoveIndex = 0, orientation = orient_white, showTimestamps = False,
      isVariation = False, variationMoves = [], variationIndex = -1,
      variationBaseIndex = 0\<rparr>"

definition startVariation :: "string \<Rightarrow> string \<Rightarrow> nav_state \<Rightarrow> nav_state" where
  "startVariation s f st =
     st\<lparr>isVariation := True,
        variationBaseIndex := currentMoveIndex st,
        variationMoves := [\<lparr>v_san = s, v_fen = f, v_eval = None\<rparr>],
        variationIndex := 0\<rparr>"

definition extendVariation :: "string \<Rightarrow> string \<Rightarrow> nav_state \<Rightarrow> nav_state" where
  "extendVariation s f st =
     st\<lparr>variationMoves :=
          (let trimmed = slice0 (variationMoves st) (variationIndex st + 1)
           in trimmed @ [\<lparr>v_san = s, v_fen = f, v_eval = None\<rparr>]),
        variationIndex := variationIndex st + 1\<rparr>"

text \<open>
  \<open>copy[idx]\<close> is \<open>undefined\<close> unless \<open>idx\<close> is an index of the array; a node is an
  object and so always truthy.
\<close>

definition updateVariationEval :: "int \<Rightarrow> int \<Rightarrow> nav_state \<Rightarrow> nav_state" where
  "updateVariationEval idx evalVal st =
     st\<lparr>variationMoves :=
          (let copy = variationMoves st
           in if 0 \<le> idx \<and> idx < int (length copy)
              then copy[nat idx := (copy ! nat idx)\<lparr>v_eval := Some evalVal\<rparr>]
              else copy)\<rparr>"

definition goToVariationMove :: "int \<Rightarrow> nav_state \<Rightarrow> nav_state" where
  "goToVariationMove idx st =
     st\<lparr>variationIndex := max 0 (min idx (int (length (variationMoves st)) - 1))\<rparr>"

definition loadVariation :: "VariationNode list \<Rightarrow> nav_state \<Rightarrow> nav_state" where
  "loadVariation sequence st =
     (if \<not> isVariation st
      then st\<lparr>isVariation := True,
              variationBaseIndex := currentMoveIndex st,
              variationMoves := sequence,
              variationIndex := int (length sequence) - 1\<rparr>
      else st\<lparr>variationMoves := slice0 (variationMoves st) (variationIndex st + 1) @ sequence,
              variationIndex := variationIndex st + int (length sequence)\<rparr>)"

text \<open>The state \<open>Exploration(baseIndex, nodes, cursor)\<close> with its cursor on a node.\<close>

definition inExploration :: "nav_state \<Rightarrow> bool" where
  "inExploration st \<longleftrightarrow>
     isVariation st \<and> 0 \<le> variationIndex st \<and>
     variationIndex st < int (length (variationMoves st))"

definition node :: "string \<Rightarrow> string \<Rightarrow> VariationNode" where
  "node s f = \<lparr>v_san = s, v_fen = f, v_eval = None\<rparr>"

text \<open>
  The line \<open>[a, b, c]\<close> with the cursor on \<open>b\<close>, reached by the hook's own callbacks from the
  initial state.
\<close>

definition lineABC :: nav_state where
  "lineABC =
     goToVariationMove 1
       (extendVariation ''c'' ''fen-c''
         (extendVariation ''b'' ''fen-b''
           (startVariation ''a'' ''fen-a'' (initialNav\<lparr>currentMoveIndex := 5\<rparr>))))"

section \<open>The rules adapter (chess.js) as the review engine consumes it\<close>

text \<open>
  chess.js is an external library. A \<open>Chess\<close> instance is modelled by what the engine
  reads from it: \<open>fen()\<close>, \<open>board()\<close> (eight rows, rank 8 first, each of eight squares
  that are empty or hold a piece) and \<open>moves({verbose: true})\<close>. The library's constructors
  and its \<open>move\<close> method are the fields of the record \<open>rules\<close>, a parameter of every
  function that calls them.
\<close>

datatype color = White | Black

datatype piece_type = Pawn | Knight | Bishop | Rook | Queen | King

record piece =
  p_type :: piece_type
  p_color :: color

record move =
  m_color :: color
  m_from :: string
  m_to :: string
  m_piece :: piece_type
  m_captured :: "piece_type option"
  m_promotion :: "piece_type option"
  m_san :: string

record chess =
  c_fen :: string
  c_board :: "piece option list list"
  c_moves :: "move list"

record rules =
  newChess :: chess
  fromFen :: "string \<Rightarrow> chess"
  makeMove :: "chess \<Rightarrow> move \<Rightarrow> chess"
  moveToken :: "chess \<Rightarrow> string \<Rightarrow> chess option"

datatype error = Error string

text \<open>The symbol chess.js uses for a piece type, as it appears in a coordinate move.\<close>

fun symbol :: "piece_type \<Rightarrow> string" where
  "symbol Pawn = ''p''"
| "symbol Knight = ''n''"
| "symbol Bishop = ''b''"
| "symbol Rook = ''r''"
| "symbol Queen = ''q''"
| "symbol King = ''k''"

text \<open>
  \<open>chess.get(square)\<close>: the piece on a square named by file and rank, read from the same
  board that \<open>board()\<close> returns; \<open>undefined\<close> for an empty square.
\<close>

definition squareIndex :: "string \<Rightarrow> (nat \<times> nat) option" where
  "squareIndex sq =
     (case sq of
        [f, r] \<Rightarrow>
          (let fi = (of_char f :: nat); ri = (of_char r :: nat)
           in if 97 \<le> fi \<and> fi \<le> 104 \<and> 49 \<le> ri \<and> ri \<le> 56
              then Some (56 - ri, fi - 97) else None)
      | _ \<Rightarrow> None)"

definition chess_get :: "chess \<Rightarrow> string \<Rightarrow> piece option" where
  "chess_get c sq =
     (case squareIndex sq of
        None \<Rightarrow> None
      | Some (row, col) \<Rightarrow>
          if row < length (c_board c) \<and> col < length (c_board c ! row)
          then c_board c ! row ! col else None)"

section \<open>Move classification engine (src/lib/chess-analysis.ts)\<close>

text \<open>
  Evaluations are centipawns and are modelled as \<open>int\<close>; the accuracy, a quotient, is a
  \<open>real\<close> (exact arithmetic stands for JavaScript's doubles). A rejected promise or a
  thrown exception is \<open>Inl\<close> of an \<open>error\<close>.
\<close>

datatype MoveClassification =
  Brilliant | Great | Best | Excellent | Good | Inaccuracy | Mistake | Miss | Blunder | Book

record MoveReview =
  san :: string
  uci :: string
  fen :: string
  fenBefore :: string
  cpLoss :: int
  evaluation :: int
  classification :: MoveClassification
  bestMoveUci :: "string option"
  clock :: "string option"
  isWhite :: bool
  moveNumber :: nat

record AnalysisResponse =
  accuracy :: real
  whitePlayer :: string
  blackPlayer :: string
  whiteElo :: string
  blackElo :: string
  timeControl :: string
  moves :: "MoveReview list"

record EvalResult =
  e_evaluation :: int
  e_bestMove :: "string option"

text \<open>
  The thresholds in the order of the source. The block guarded by \<open>isSacrifice\<close> returns
  for a loss of at most 30 and falls through to the remaining tests otherwise.
\<close>

definition classifyMove :: "int \<Rightarrow> bool \<Rightarrow> bool \<Rightarrow> MoveClassification" where
  "classifyMove loss isSac isPun =
     (if isSac \<and> loss \<le> 15 then Brilliant
      else if isSac \<and> loss \<le> 30 then Great
      else if isPun \<and> loss \<le> 15 then Great
      else if loss = 0 then Best
      else if loss \<le> 15 then Excellent
      else if loss \<le> 30 then Good
      else if loss \<le> 60 then Inaccuracy
      else if loss \<le> 120 then Mistake
      else if loss \<le> 250 then Miss
      else Blunder)"

fun PIECE_VALUES :: "piece_type \<Rightarrow> int" where
  "PIECE_VALUES Pawn = 1"
| "PIECE_VALUES Knight = 3"
| "PIECE_VALUES Bishop = 3"
| "PIECE_VALUES Rook = 5"
| "PIECE_VALUES Queen = 9"
| "PIECE_VALUES King = 0"

text \<open>The two nested loops over \<open>chess.board()\<close>; the accumulator is \<open>(white, black)\<close>.\<close>

definition materialBalance :: "chess \<Rightarrow> bool \<Rightarrow> int" where
  "materialBalance c forWhite =
     (let (wsum, bsum) =
            fold (\<lambda>row acc.
                    fold (\<lambda>sq (wh, bl).
                            case sq of
                              None \<Rightarrow> (wh, bl)
                            | Some pc \<Rightarrow>
                                (let v = PIECE_VALUES (p_type pc)
                                 in if p_color pc = White then (wh + v, bl) else (wh, bl + v)))
                         row acc)
                 (c_board c) (0, 0)
      in if forWhite then wsum - bsum else bsum - wsum)"

text \<open>
  The loop over \<open>chess.moves({verbose: true})\<close>. A move without \<open>captured\<close> is skipped; so
  is a move whose target square is empty, and a move whose target square holds a piece of
  \<open>ourColor\<close>.
\<close>

definition maxMaterialLossAfterMove :: "chess \<Rightarrow> bool \<Rightarrow> int" where
  "maxMaterialLossAfterMove c forWhite =
     (let ourColor = (if forWhite then White else Black)
      in fold (\<lambda>m maxLoss.
                 case m_captured m of
                   None \<Rightarrow> maxLoss
                 | Some t \<Rightarrow>
                     (case chess_get c (m_to m) of
                        None \<Rightarrow> maxLoss
                      | Some captured \<Rightarrow>
                          if p_color captured = ourColor then maxLoss
                          else max maxLoss (PIECE_VALUES t)))
              (c_moves c) 0)"

text \<open>
  What chess.js guarantees of the legal moves of a position in which the side to move is
  not \<open>col\<close>: a capturing move lands on a piece of colour \<open>col\<close>, or, when it captures
  en passant, on an empty square.
\<close>

definition capturesTakeFrom :: "chess \<Rightarrow> color \<Rightarrow> bool" where
  "capturesTakeFrom c col =
     list_all (\<lambda>m. case m_captured m of
                      None \<Rightarrow> True
                    | Some t \<Rightarrow> (case chess_get c (m_to m) of
                                  None \<Rightarrow> True
                                | Some pc \<Rightarrow> p_color pc = col))
              (c_moves c)"

text \<open>Lines 152 to 154: the loss of the side that moved, before the book check.\<close>

definition rawCpLoss :: "bool \<Rightarrow> int \<Rightarrow> int \<Rightarrow> int" where
  "rawCpLoss white evalBefore evalAfter =
     (if white then max 0 (evalBefore - evalAfter) else max 0 (evalAfter - evalBefore))"

text \<open>Lines 156 to 162: sacrifice detection.\<close>

definition isSacrifice :: "rules \<Rightarrow> string \<Rightarrow> string \<Rightarrow> bool \<Rightarrow> bool" where
  "isSacrifice Ru fenB fenA white =
     (let boardBefore = fromFen Ru fenB;
          boardAfter = fromFen Ru fenA;
          b1 = materialBalance boardBefore white;
          b2 = materialBalance boardAfter white;
          maxLoss = maxMaterialLossAfterMove boardAfter white
      in b2 - maxLoss - b1 \<le> -2)"

text \<open>
  The sacrifice test in the words of the specification: the largest piece value that a
  capturing reply available in the position after the move takes.
\<close>

definition maxRecapturableLoss_spec :: "chess \<Rightarrow> int" where
  "maxRecapturableLoss_spec c =
     fold (\<lambda>m acc. case m_captured m of
                      None \<Rightarrow> acc
                    | Some t \<Rightarrow> max acc (PIECE_VALUES t))
          (c_moves c) 0"

definition isSacrifice_spec :: "rules \<Rightarrow> string \<Rightarrow> string \<Rightarrow> bool \<Rightarrow> bool" where
  "isSacrifice_spec Ru fenB fenA white =
     (let balanceBefore = materialBalance (fromFen Ru fenB) white;
          balanceAfter = materialBalance (fromFen Ru fenA) white;
          maxRecapturableLoss = maxRecapturableLoss_spec (fromFen Ru fenA)
      in balanceAfter - maxRecapturableLoss - balanceBefore \<le> -2)"

text \<open>
  Lines 164 to 172: punishment detection. The loss of the previous ply is computed again
  from the evaluations; \<open>loss\<close> is the current ply's loss before the book check.
\<close>

definition isPunishment :: "move list \<Rightarrow> int list \<Rightarrow> nat \<Rightarrow> int \<Rightarrow> bool" where
  "isPunishment history evaluations i loss =
     (if i > 0
      then (let prevIsWhite = (m_color (history ! (i - 1)) = White);
                prevLoss = (if prevIsWhite
                            then max 0 (evaluations ! (i - 1) - evaluations ! i)
                            else max 0 (evaluations ! i - evaluations ! (i - 1)))
            in prevLoss \<ge> 120 \<and> loss \<le> 15)
      else False)"

text \<open>
  The values the variables \<open>cpLoss\<close> (before the book check) and \<open>isPunishment\<close> take in
  iteration \<open>i\<close> of the loop, as functions of the moves and of the list \<open>evaluations\<close>.
\<close>

definition plyLoss :: "move list \<Rightarrow> int list \<Rightarrow> nat \<Rightarrow> int" where
  "plyLoss history evaluations i =
     rawCpLoss (m_color (history ! i) = White) (evaluations ! i) (evaluations ! (i + 1))"

definition punishmentAt :: "move list \<Rightarrow> int list \<Rightarrow> nat \<Rightarrow> bool" where
  "punishmentAt history evaluations i =
     isPunishment history evaluations i (plyLoss history evaluations i)"

section \<open>Opening book (src/lib/opening-book.ts)\<close>

text \<open>\<open>s.split(d)\<close> for a one-character separator: never empty, keeps empty fields.\<close>

fun splitOn :: "char \<Rightarrow> string \<Rightarrow> string list" where
  "splitOn d [] = [[]]"
| "splitOn d (c # cs) =
     (if c = d then [] # splitOn d cs
      else (case splitOn d cs of
              [] \<Rightarrow> [[c]]
            | w # ws \<Rightarrow> (c # w) # ws))"

fun joinWith :: "char \<Rightarrow> string list \<Rightarrow> string" where
  "joinWith d [] = []"
| "joinWith d [x] = x"
| "joinWith d (x # y # ys) = x @ d # joinWith d (y # ys)"

definition normalizeFen :: "string \<Rightarrow> string" where
  "normalizeFen f = joinWith CHR '' '' (take 4 (splitOn CHR '' '' f))"

definition isBookPosition :: "string \<Rightarrow> string set \<Rightarrow> bool" where
  "isBookPosition f book \<longleftrightarrow> normalizeFen f \<in> book"










text \<open>
  \<open>Promise.all\<close> over settled promises: fulfilled with all the values when every promise
  is fulfilled, rejected when one is. Which rejection it reports depends on the order in
  which the promises settle; the model reports the first in list order, and the theorems
  below only use that the result is a rejection.
\<close>

fun promiseAll :: "(error + 'a) list \<Rightarrow> error + 'a list" where
  "promiseAll [] = Inr []"
| "promiseAll (p # ps) =
     (case p of
        Inl e \<Rightarrow> Inl e
      | Inr x \<Rightarrow> (case promiseAll ps of Inl e \<Rightarrow> Inl e | Inr xs \<Rightarrow> Inr (x # xs)))"






section \<open>The review of a game (analyzeGame)\<close>

text \<open>
  The PGN text enters through three readers: \<open>chess.loadPgn\<close> with \<open>chess.history\<close>
  (which throws on a PGN that does not parse), \<open>extractClocks\<close> and \<open>extractHeader\<close>.
  The model takes what they return.
\<close>

record pgn_input =
  pgn_history :: "error + move list"
  pgn_clocks :: "string list"
  pgn_header :: "string \<Rightarrow> string"

text \<open>Step 1: the position before the first move and the position after every move.\<close>

fun gameFens :: "rules \<Rightarrow> chess \<Rightarrow> move list \<Rightarrow> string list" where
  "gameFens Ru board [] = [c_fen board]"
| "gameFens Ru board (m # ms) = c_fen board # gameFens Ru (makeMove Ru board m) ms"

record loop_state =
  reviews :: "MoveReview list"
  totalCpLoss :: int
  inBook :: bool

text \<open>
  One iteration of the loop of step 4, for the index \<open>i\<close>. \<open>loss\<close> is the variable
  \<open>cpLoss\<close> before the book check and \<open>loss'\<close> after it. The loop runs \<open>i\<close> over the
  indices of \<open>history\<close>; \<open>fens\<close> and \<open>evalResults\<close> are built from \<open>history\<close> with one
  element more, so the reads at \<open>i\<close> and \<open>i + 1\<close> are within range (lemmas
  \<open>length_gameFens\<close> and \<open>evaluateAll_InrD\<close> below).
\<close>

definition classifyStep ::
  "rules \<Rightarrow> move list \<Rightarrow> string list \<Rightarrow> EvalResult list \<Rightarrow> string set \<Rightarrow> string list \<Rightarrow>
   nat \<Rightarrow> loop_state \<Rightarrow> loop_state" where
  "classifyStep Ru history fens evalResults book clocks i st =
     (let evaluations = map e_evaluation evalResults;
          move = history ! i;
          white = (m_color move = White);
          evalBefore = evaluations ! i;
          evalAfter = evaluations ! (i + 1);
          fenB = fens ! i;
          fenA = fens ! (i + 1);
          loss = rawCpLoss white evalBefore evalAfter;
          sacrifice = isSacrifice Ru fenB fenA white;
          punishment = isPunishment history evaluations i loss;
          bookHit = (inBook st \<and> isBookPosition fenA book);
          cls = (if bookHit then Book else classifyMove loss sacrifice punishment);
          loss' = (if bookHit then 0 else loss);
          needsBestMove = (cls \<in> set [Inaccuracy, Mistake, Miss, Blunder, Excellent, Good]);
          best = (if needsBestMove then e_bestMove (evalResults ! i) else None)
      in \<lparr>reviews = reviews st @
             [\<lparr>san = m_san move,
               uci = m_from move @ m_to move @
                     (case m_promotion move of None \<Rightarrow> [] | Some p \<Rightarrow> symbol p),
               fen = fenA,
               fenBefore = fenB,
               cpLoss = loss',
               evaluation = evalAfter,
               classification = cls,
               bestMoveUci = best,
               clock = (if i < length clocks then Some (clocks ! i) else None),
               isWhite = white,
               moveNumber = i div 2 + 1\<rparr>],
          totalCpLoss = totalCpLoss st + loss',
          inBook = (if bookHit then inBook st else False)\<rparr>)"

text \<open>The loop of step 4 after \<open>n\<close> iterations.\<close>

definition classifyLoop ::
  "rules \<Rightarrow> move list \<Rightarrow> string list \<Rightarrow> EvalResult list \<Rightarrow> string set \<Rightarrow> string list \<Rightarrow>
   nat \<Rightarrow> loop_state" where
  "classifyLoop Ru history fens evalResults book clocks n =
     fold (classifyStep Ru history fens evalResults book clocks) [0..<n]
       \<lparr>reviews = [], totalCpLoss = 0, inBook = True\<rparr>"

text \<open>Steps 1 and 2: one evaluation request for every position of the game.\<close>

definition evaluateAll ::
  "rules \<Rightarrow> (string \<Rightarrow> error + EvalResult) \<Rightarrow> move list \<Rightarrow> error + EvalResult list" where
  "evaluateAll Ru evaluatePosition history =
     promiseAll (map evaluatePosition (gameFens Ru (newChess Ru) history))"

text \<open>Lines 204 and 205.\<close>

definition accuracyOf :: "int \<Rightarrow> nat \<Rightarrow> real" where
  "accuracyOf totalLoss n =
     (let avgCpLoss = (if n \<noteq> 0 then real_of_int totalLoss / real n else 0)
      in max 0 (100 - avgCpLoss / 10))"

text \<open>
  \<open>analyzeGame\<close>. \<open>evaluatePosition\<close> gives the settled outcome of the evaluation request
  for a position (the depth is fixed), \<open>openingBook\<close> the settled outcome of
  \<open>getOpeningBook()\<close>. The progress callback has no effect on the result and is left out.
\<close>

definition analyzeGame ::
  "rules \<Rightarrow> (string \<Rightarrow> error + EvalResult) \<Rightarrow> (error + string set) \<Rightarrow> pgn_input \<Rightarrow>
   error + AnalysisResponse" where
  "analyzeGame Ru evaluatePosition openingBook pgn =
     (case pgn_history pgn of
        Inl e \<Rightarrow> Inl e
      | Inr history \<Rightarrow>
          (let clocks = pgn_clocks pgn;
               fens = gameFens Ru (newChess Ru) history
           in case evaluateAll Ru evaluatePosition history of
                Inl e \<Rightarrow> Inl e
              | Inr evalResults \<Rightarrow>
                  (case openingBook of
                     Inl e \<Rightarrow> Inl e
                   | Inr book \<Rightarrow>
                       (let st = classifyLoop Ru history fens evalResults book clocks
                                   (length history)
                        in Inr \<lparr>accuracy = accuracyOf (totalCpLoss st) (length (reviews st)),
                                whitePlayer = pgn_header pgn ''White'',
                                blackPlayer = pgn_header pgn ''Black'',
                                whiteElo = pgn_header pgn ''WhiteElo'',
                                blackElo = pgn_header pgn ''BlackElo'',
                                timeControl = pgn_header pgn ''TimeControl'',
                                moves = reviews st\<rparr>))))"

section \<open>A tabulated game: 1. e4 d5 2. Qg4\<close>

text \<open>
  The four positions of the game 1. e4 d5 2. Qg4, as chess.js reports them: the FEN, the
  board and the legal moves (in no particular order). In the last position the white queen
  on g4 can be taken by the bishop on c8.
\<close>

definition pieceOfChar :: "char \<Rightarrow> piece option" where
  "pieceOfChar ch =
     (if ch = CHR ''P'' then Some \<lparr>p_type = Pawn, p_color = White\<rparr>
      else if ch = CHR ''N'' then Some \<lparr>p_type = Knight, p_color = White\<rparr>
      else if ch = CHR ''B'' then Some \<lparr>p_type = Bishop, p_color = White\<rparr>
      else if ch = CHR ''R'' then Some \<lparr>p_type = Rook, p_color = White\<rparr>
      else if ch = CHR ''Q'' then Some \<lparr>p_type = Queen, p_color = White\<rparr>
      else if ch = CHR ''K'' then Some \<lparr>p_type = King, p_color = White\<rparr>
      else if ch = CHR ''p'' then Some \<lparr>p_type = Pawn, p_color = Black\<rparr>
      else if ch = CHR ''n'' then Some \<lparr>p_type = Knight, p_color = Black\<rparr>
      else if ch = CHR ''b'' then Some \<lparr>p_type = Bishop, p_color = Black\<rparr>
      else if ch = CHR ''r'' then Some \<lparr>p_type = Rook, p_color = Black\<rparr>
      else if ch = CHR ''q'' then Some \<lparr>p_type = Queen, p_color = Black\<rparr>
      else if ch = CHR ''k'' then Some \<lparr>p_type = King, p_color = Black\<rparr>
      else None)"

definition boardOfRows :: "string list \<Rightarrow> piece option list list" where
  "boardOfRows rows = map (map pieceOfChar) rows"

definition mv ::
  "color \<Rightarrow> piece_type \<Rightarrow> string \<Rightarrow> string \<Rightarrow> piece_type option \<Rightarrow> string \<Rightarrow> move" where
  "mv c p f t cap s =
     \<lparr>m_color = c, m_from = f, m_to = t, m_piece = p, m_captured = cap,
      m_promotion = None, m_san = s\<rparr>"

definition movesStart :: "move list" where
  "movesStart =
     [mv White Pawn ''a2'' ''a3'' None ''a3'',
      mv White Pawn ''a2'' ''a4'' None ''a4'',
      mv White Pawn ''b2'' ''b3'' None ''b3'',
      mv White Pawn ''b2'' ''b4'' None ''b4'',
      mv White Pawn ''c2'' ''c3'' None ''c3'',
      mv White Pawn ''c2'' ''c4'' None ''c4'',
      mv White Pawn ''d2'' ''d3'' None ''d3'',
      mv White Pawn ''d2'' ''d4'' None ''d4'',
      mv White Pawn ''e2'' ''e3'' None ''e3'',
      mv White Pawn ''e2'' ''e4'' None ''e4'',
      mv White Pawn ''f2'' ''f3'' None ''f3'',
      mv White Pawn ''f2'' ''f4'' None ''f4'',
      mv White Pawn ''g2'' ''g3'' None ''g3'',
      mv White Pawn ''g2'' ''g4'' None ''g4'',
      mv White Pawn ''h2'' ''h3'' None ''h3'',
      mv White Pawn ''h2'' ''h4'' None ''h4'',
      mv White Knight ''b1'' ''a3'' None ''Na3'',
      mv White Knight ''b1'' ''c3'' None ''Nc3'',
      mv White Knight ''g1'' ''f3'' None ''Nf3'',
      mv White Knight ''g1'' ''h3'' None ''Nh3'']"

definition movesAfterE4 :: "move list" where
  "movesAfterE4 =
     [mv Black Pawn ''a7'' ''a6'' None ''a6'',
      mv Black Pawn ''a7'' ''a5'' None ''a5'',
      mv Black Pawn ''b7'' ''b6'' None ''b6'',
      mv Black Pawn ''b7'' ''b5'' None ''b5'',
      mv Black Pawn ''c7'' ''c6'' None ''c6'',
      mv Black Pawn ''c7'' ''c5'' None ''c5'',
      mv Black Pawn ''d7'' ''d6'' None ''d6'',
      mv Black Pawn ''d7'' ''d5'' None ''d5'',
      mv Black Pawn ''e7'' ''e6'' None ''e6'',
      mv Black Pawn ''e7'' ''e5'' None ''e5'',
      mv Black Pawn ''f7'' ''f6'' None ''f6'',
      mv Black Pawn ''f7'' ''f5'' None ''f5'',
      mv Black Pawn ''g7'' ''g6'' None ''g6'',
      mv Black Pawn ''g7'' ''g5'' None ''g5'',
      mv Black Pawn ''h7'' ''h6'' None ''h6'',
      mv Black Pawn ''h7'' ''h5'' None ''h5'',
      mv Black Knight ''b8'' ''a6'' None ''Na6'',
      mv Black Knight ''b8'' ''c6'' None ''Nc6'',
      mv Black Knight ''g8'' ''f6'' None ''Nf6'',
      mv Black Knight ''g8'' ''h6'' None ''Nh6'']"

definition movesAfterD5 :: "move list" where
  "movesAfterD5 =
     [mv White Pawn ''a2'' ''a3'' None ''a3'',
      mv White Pawn ''a2'' ''a4'' None ''a4'',
      mv White Pawn ''b2'' ''b3'' None ''b3'',
      mv White Pawn ''b2'' ''b4'' None ''b4'',
      mv White Pawn ''c2'' ''c3'' None ''c3'',
      mv White Pawn ''c2'' ''c4'' None ''c4'',
      mv White Pawn ''d2'' ''d3'' None ''d3'',
      mv White Pawn ''d2'' ''d4'' None ''d4'',
      mv White Pawn ''f2'' ''f3'' None ''f3'',
      mv White Pawn ''f2'' ''f4'' None ''f4'',
      mv White Pawn ''g2'' ''g3'' None ''g3'',
      mv White Pawn ''g2'' ''g4'' None ''g4'',
      mv White Pawn ''h2'' ''h3'' None ''h3'',
      mv White Pawn ''h2'' ''h4'' None ''h4'',
      mv White Pawn ''e4'' ''e5'' None ''e5'',
      mv White Pawn ''e4'' ''d5'' (Some Pawn) ''exd5'',
      mv White Knight ''b1'' ''a3'' None ''Na3'',
      mv White Knight ''b1'' ''c3'' None ''Nc3'',
      mv White Knight ''g1'' ''e2'' None ''Ne2'',
      mv White Knight ''g1'' ''f3'' None ''Nf3'',
      mv White Knight ''g1'' ''h3'' None ''Nh3'',
      mv White Bishop ''f1'' ''e2'' None ''Be2'',
      mv White Bishop ''f1'' ''d3'' None ''Bd3'',
      mv White Bishop ''f1'' ''c4'' None ''Bc4'',
      mv White Bishop ''f1'' ''b5'' None ''Bb5+'',
      mv White Bishop ''f1'' ''a6'' None ''Ba6'',
      mv White Queen ''d1'' ''e2'' None ''Qe2'',
      mv White Queen ''d1'' ''f3'' None ''Qf3'',
      mv White Queen ''d1'' ''g4'' None ''Qg4'',
      mv White Queen ''d1'' ''h5'' None ''Qh5'',
      mv White King ''e1'' ''e2'' None ''Ke2'']"

definition movesAfterQg4 :: "move list" where
  "movesAfterQg4 =
     [mv Black Pawn ''a7'' ''a6'' None ''a6'',
      mv Black Pawn ''a7'' ''a5'' None ''a5'',
      mv Black Pawn ''b7'' ''b6'' None ''b6'',
      mv Black Pawn ''b7'' ''b5'' None ''b5'',
      mv Black Pawn ''c7'' ''c6'' None ''c6'',
      mv Black Pawn ''c7'' ''c5'' None ''c5'',
      mv Black Pawn ''d5'' ''d4'' None ''d4'',
      mv Black Pawn ''d5'' ''e4'' (Some Pawn) ''dxe4'',
      mv Black Pawn ''e7'' ''e6'' None ''e6'',
      mv Black Pawn ''e7'' ''e5'' None ''e5'',
      mv Black Pawn ''f7'' ''f6'' None ''f6'',
      mv Black Pawn ''f7'' ''f5'' None ''f5'',
      mv Black Pawn ''g7'' ''g6'' None ''g6'',
      mv Black Pawn ''g7'' ''g5'' None ''g5'',
      mv Black Pawn ''h7'' ''h6'' None ''h6'',
      mv Black Pawn ''h7'' ''h5'' None ''h5'',
      mv Black Knight ''b8'' ''a6'' None ''Na6'',
      mv Black Knight ''b8'' ''c6'' None ''Nc6'',
      mv Black Knight ''b8'' ''d7'' None ''Nd7'',
      mv Black Knight ''g8'' ''f6'' None ''Nf6'',
      mv Black Knight ''g8'' ''h6'' None ''Nh6'',
      mv Black Bishop ''c8'' ''d7'' None ''Bd7'',
      mv Black Bishop ''c8'' ''e6'' None ''Be6'',
      mv Black Bishop ''c8'' ''f5'' None ''Bf5'',
      mv Black Bishop ''c8'' ''g4'' (Some Queen) ''Bxg4'',
      mv Black Queen ''d8'' ''d7'' None ''Qd7'',
      mv Black Queen ''d8'' ''d6'' None ''Qd6'']"

definition fenStart :: string where
  "fenStart = ''rnbqkbnr/pppppppp/8/8/8/8/PPPPPPPP/RNBQKBNR w KQkq - 0 1''"

definition fenAfterE4 :: string where
  "fenAfterE4 = ''rnbqkbnr/pppppppp/8/8/4P3/8/PPPP1PPP/RNBQKBNR b KQkq - 0 1''"

definition fenAfterD5 :: string where
  "fenAfterD5 = ''rnbqkbnr/ppp1pppp/8/3p4/4P3/8/PPPP1PPP/RNBQKBNR w KQkq - 0 2''"

definition fenAfterQg4 :: string where
  "fenAfterQg4 = ''rnbqkbnr/ppp1pppp/8/3p4/4P1Q1/8/PPPP1PPP/RNB1KBNR b KQkq - 1 2''"

definition posStart :: chess where
  "posStart =
     \<lparr>c_fen = fenStart,
      c_board = boardOfRows
        [''rnbqkbnr'', ''pppppppp'', ''........'', ''........'',
         ''........'', ''........'', ''PPPPPPPP'', ''RNBQKBNR''],
      c_moves = movesStart\<rparr>"

definition posAfterE4 :: chess where
  "posAfterE4 =
     \<lparr>c_fen = fenAfterE4,
      c_board = boardOfRows
        [''rnbqkbnr'', ''pppppppp'', ''........'', ''........'',
         ''....P...'', ''........'', ''PPPP.PPP'', ''RNBQKBNR''],
      c_moves = movesAfterE4\<rparr>"

definition posAfterD5 :: chess where
  "posAfterD5 =
     \<lparr>c_fen = fenAfterD5,
      c_board = boardOfRows
        [''rnbqkbnr'', ''ppp.pppp'', ''........'', ''...p....'',
         ''....P...'', ''........'', ''PPPP.PPP'', ''RNBQKBNR''],
      c_moves = movesAfterD5\<rparr>"

definition posAfterQg4 :: chess where
  "posAfterQg4 =
     \<lparr>c_fen = fenAfterQg4,
      c_board = boardOfRows
        [''rnbqkbnr'', ''ppp.pppp'', ''........'', ''...p....'',
         ''....P.Q.'', ''........'', ''PPPP.PPP'', ''RNB.KBNR''],
      c_moves = movesAfterQg4\<rparr>"

text \<open>
  The rules adapter restricted to this game: the constructors know the four positions,
  and \<open>move\<close> knows the three moves played. Any other FEN gives an empty board and any
  other move is rejected; the examples below do not reach either.
\<close>

definition gameRules :: rules where
  "gameRules =
     \<lparr>newChess = posStart,
      fromFen = (\<lambda>f. if f = fenStart then posStart
                      else if f = fenAfterE4 then posAfterE4
                      else if f = fenAfterD5 then posAfterD5
                      else if f = fenAfterQg4 then posAfterQg4
                      else \<lparr>c_fen = f, c_board = [], c_moves = []\<rparr>),
      makeMove = (\<lambda>c m. if c_fen c = fenStart \<and> m_san m = ''e4'' then posAfterE4
                         else if c_fen c = fenAfterE4 \<and> m_san m = ''d5'' then posAfterD5
                         else if c_fen c = fenAfterD5 \<and> m_san m = ''Qg4'' then posAfterQg4
                         else c),
      moveToken = (\<lambda>c t. if c_fen c = fenStart \<and> t = ''e4'' then Some posAfterE4
                          else if c_fen c = fenAfterE4 \<and> t = ''d5'' then Some posAfterD5
                          else if c_fen c = fenAfterD5 \<and> t = ''Qg4'' then Some posAfterQg4
                          else None)\<rparr>"

definition gameHistory :: "move list" where
  "gameHistory =
     [mv White Pawn ''e2'' ''e4'' None ''e4'',
      mv Black Pawn ''d7'' ''d5'' None ''d5'',
      mv White Queen ''d1'' ''g4'' None ''Qg4'']"

definition gamePgn :: pgn_input where
  "gamePgn =
     \<lparr>pgn_history = Inr gameHistory, pgn_clocks = [], pgn_header = (\<lambda>tag. ''?'')\<rparr>"

text \<open>An evaluator for the game: the queen move loses 860 centipawns.\<close>

definition evalTable :: "(string \<times> EvalResult) list \<Rightarrow> string \<Rightarrow> error + EvalResult" where
  "evalTable tab f =
     (case map_of tab f of
        None \<Rightarrow> Inl (Error ''Eval API error: 500'')
      | Some r \<Rightarrow> Inr r)"

definition gameEvals :: "(string \<times> EvalResult) list" where
  "gameEvals =
     [(fenStart, \<lparr>e_evaluation = 30, e_bestMove = Some ''e2e4''\<rparr>),
      (fenAfterE4, \<lparr>e_evaluation = 35, e_bestMove = Some ''e7e5''\<rparr>),
      (fenAfterD5, \<lparr>e_evaluation = 60, e_bestMove = Some ''e4d5''\<rparr>),
      (fenAfterQg4, \<lparr>e_evaluation = -800, e_bestMove = Some ''c8g4''\<rparr>)]"

text \<open>The same evaluations, without a best move for the position before 2. Qg4.\<close>

definition gameEvalsNoBest :: "(string \<times> EvalResult) list" where
  "gameEvalsNoBest =
     [(fenStart, \<lparr>e_evaluation = 30, e_bestMove = Some ''e2e4''\<rparr>),
      (fenAfterE4, \<lparr>e_evaluation = 35, e_bestMove = Some ''e7e5''\<rparr>),
      (fenAfterD5, \<lparr>e_evaluation = 60, e_bestMove = None\<rparr>),
      (fenAfterQg4, \<lparr>e_evaluation = -800, e_bestMove = Some ''c8g4''\<rparr>)]"

text \<open>An evaluator that sees 1. e4 lose 130 centipawns and 1... d5 lose nothing.\<close>

definition swingEvals :: "(string \<times> EvalResult) list" where
  "swingEvals =
     [(fenStart, \<lparr>e_evaluation = 30, e_bestMove = Some ''d2d4''\<rparr>),
      (fenAfterE4, \<lparr>e_evaluation = -100, e_bestMove = Some ''d7d5''\<rparr>),
      (fenAfterD5, \<lparr>e_evaluation = -100, e_bestMove = Some ''e4d5''\<rparr>),
      (fenAfterQg4, \<lparr>e_evaluation = -900, e_bestMove = Some ''c8g4''\<rparr>)]"

text \<open>An evaluator that returns 0 for every position.\<close>

definition flatEvals :: "(string \<times> EvalResult) list" where
  "flatEvals =
     [(fenStart, \<lparr>e_evaluation = 0, e_bestMove = Some ''e2e4''\<rparr>),
      (fenAfterE4, \<lparr>e_evaluation = 0, e_bestMove = Some ''e7e5''\<rparr>),
      (fenAfterD5, \<lparr>e_evaluation = 0, e_bestMove = Some ''e4d5''\<rparr>),
      (fenAfterQg4, \<lparr>e_evaluation = 0, e_bestMove = Some ''c8g4''\<rparr>)]"

text \<open>An evaluator that sees 1... d5 lose 170 centipawns and 2. Qg4 lose 10.\<close>

definition punishEvals :: "(string \<times> EvalResult) list" where
  "punishEvals =
     [(fenStart, \<lparr>e_evaluation = 30, e_bestMove = Some ''e2e4''\<rparr>),
      (fenAfterE4, \<lparr>e_evaluation = 30, e_bestMove = Some ''e7e5''\<rparr>),
      (fenAfterD5, \<lparr>e_evaluation = 200, e_bestMove = Some ''e4d5''\<rparr>),
      (fenAfterQg4, \<lparr>e_evaluation = 190, e_bestMove = Some ''c8g4''\<rparr>)]"












text \<open>The books that the two partition sets give, and the reviews the engine returns.\<close>

definition bookKingsPawn :: "string set" where
  "bookKingsPawn = {normalizeFen fenStart, normalizeFen fenAfterE4}"

definition bookScandinavian :: "string set" where
  "bookScandinavian = {normalizeFen fenStart, normalizeFen fenAfterE4, normalizeFen fenAfterD5}"

definition rv ::
  "string \<Rightarrow> string \<Rightarrow> string \<Rightarrow> string \<Rightarrow> int \<Rightarrow> int \<Rightarrow> MoveClassification \<Rightarrow>
   string option \<Rightarrow> bool \<Rightarrow> nat \<Rightarrow> MoveReview" where
  "rv s u fb fa loss ev cls best w n =
     \<lparr>san = s, uci = u, fen = fa, fenBefore = fb, cpLoss = loss, evaluation = ev,
      classification = cls, bestMoveUci = best, clock = None, isWhite = w, moveNumber = n\<rparr>"

definition response :: "real \<Rightarrow> MoveReview list \<Rightarrow> AnalysisResponse" where
  "response acc ms =
     \<lparr>accuracy = acc, whitePlayer = ''?'', blackPlayer = ''?'', whiteElo = ''?'',
      blackElo = ''?'', timeControl = ''?'', moves = ms\<rparr>"

definition reviewScandinavian :: AnalysisResponse where
  "reviewScandinavian =
     response (214 / 3)
       [rv ''e4'' ''e2e4'' fenStart fenAfterE4 0 35 Book None True 1,
        rv ''d5'' ''d7d5'' fenAfterE4 fenAfterD5 0 60 Book None False 1,
        rv ''Qg4'' ''d1g4'' fenAfterD5 fenAfterQg4 860 (-800) Blunder (Some ''e4d5'') True 2]"

definition reviewKingsPawn :: AnalysisResponse where
  "reviewKingsPawn =
     response (141 / 2)
       [rv ''e4'' ''e2e4'' fenStart fenAfterE4 0 35 Book None True 1,
        rv ''d5'' ''d7d5'' fenAfterE4 fenAfterD5 25 60 Good (Some ''e7e5'') False 1,
        rv ''Qg4'' ''d1g4'' fenAfterD5 fenAfterQg4 860 (-800) Blunder (Some ''e4d5'') True 2]"

definition reviewNoBest :: AnalysisResponse where
  "reviewNoBest =
     response (214 / 3)
       [rv ''e4'' ''e2e4'' fenStart fenAfterE4 0 35 Book None True 1,
        rv ''d5'' ''d7d5'' fenAfterE4 fenAfterD5 0 60 Book None False 1,
        rv ''Qg4'' ''d1g4'' fenAfterD5 fenAfterQg4 860 (-800) Blunder None True 2]"

definition reviewSwing :: AnalysisResponse where
  "reviewSwing =
     response (220 / 3)
       [rv ''e4'' ''e2e4'' fenStart fenAfterE4 0 (-100) Book None True 1,
        rv ''d5'' ''d7d5'' fenAfterE4 fenAfterD5 0 (-100) Great None False 1,
        rv ''Qg4'' ''d1g4'' fenAfterD5 fenAfterQg4 800 (-900) Blunder (Some ''e4d5'') True 2]"

definition reviewNoBook :: AnalysisResponse where
  "reviewNoBook =
     response (141 / 2)
       [rv ''e4'' ''e2e4'' fenStart fenAfterE4 0 35 Best None True 1,
        rv ''d5'' ''d7d5'' fenAfterE4 fenAfterD5 25 60 Good (Some ''e7e5'') False 1,
        rv ''Qg4'' ''d1g4'' fenAfterD5 fenAfterQg4 860 (-800) Blunder (Some ''e4d5'') True 2]"

definition reviewPunish :: AnalysisResponse where
  "reviewPunish =
     response 94
       [rv ''e4'' ''e2e4'' fenStart fenAfterE4 0 30 Book None True 1,
        rv ''d5'' ''d7d5'' fenAfterE4 fenAfterD5 170 200 Miss (Some ''e7e5'') False 1,
        rv ''Qg4'' ''d1g4'' fenAfterD5 fenAfterQg4 10 190 Great None True 2]"

definition reviewFlat :: AnalysisResponse where
  "reviewFlat =
     response 100
       [rv ''e4'' ''e2e4'' fenStart fenAfterE4 0 0 Best None True 1,
        rv ''d5'' ''d7d5'' fenAfterE4 fenAfterD5 0 0 Best None False 1,
        rv ''Qg4'' ''d1g4'' fenAfterD5 fenAfterQg4 0 0 Best None True 2]"

text \<open>A PGN without any move.\<close>

definition emptyPgn :: pgn_input where
  "emptyPgn = \<lparr>pgn_history = Inr [], pgn_clocks = [], pgn_header = (\<lambda>tag. ''?'')\<rparr>"

section \<open>Facts about the exploration line\<close>

lemma slice0_in_range:
  "0 \<le> e \<Longrightarrow> e \<le> int (length xs) \<Longrightarrow> slice0 xs e = take (nat e) xs"
  by (simp add: slice0_def)

lemma lineABC_value:
  "lineABC =
     \<lparr>currentMoveIndex = 5, orientation = orient_white, showTimestamps = False,
      isVariation = True,
      variationMoves = [node ''a'' ''fen-a'', node ''b'' ''fen-b'', node ''c'' ''fen-c''],
      variationIndex = 1, variationBaseIndex = 5\<rparr>"
  by (simp add: lineABC_def goToVariationMove_def extendVariation_def startVariation_def
      initialNav_def slice0_def node_def)

lemma inExploration_lineABC: "inExploration lineABC"
  by (simp add: lineABC_value inExploration_def)

section \<open>Facts about the review engine\<close>

subsection \<open>Promises and positions\<close>

lemma promiseAll_Inr:
  "promiseAll ps = Inr xs \<Longrightarrow> length xs = length ps \<and> (\<forall>i < length ps. ps ! i = Inr (xs ! i))"
proof (induction ps arbitrary: xs)
  case Nil
  then show ?case by simp
next
  case (Cons p ps)
  from Cons.prems obtain x ys where p: "p = Inr x" and ys: "promiseAll ps = Inr ys" and xs: "xs = x # ys"
    by (auto split: sum.splits)
  from Cons.IH [OF ys] show ?case
    by (auto simp add: p xs nth_Cons split: nat.splits)
qed



lemma length_gameFens: "length (gameFens Ru c h) = length h + 1"
  by (induction h arbitrary: c) simp_all

lemma classifyLoop_0:
  "classifyLoop Ru h fs es bk cl 0 = \<lparr>reviews = [], totalCpLoss = 0, inBook = True\<rparr>"
  by (simp add: classifyLoop_def)

lemma classifyLoop_Suc:
  "classifyLoop Ru h fs es bk cl (Suc n) =
     classifyStep Ru h fs es bk cl n (classifyLoop Ru h fs es bk cl n)"
  by (simp add: classifyLoop_def)

lemma reviews_classifyStep:
  "\<exists>r. reviews (classifyStep Ru h fs es bk cl i st) = reviews st @ [r]"
  by (simp add: classifyStep_def Let_def)

lemma length_reviews_classifyLoop:
  "length (reviews (classifyLoop Ru h fs es bk cl n)) = n"
proof (induction n)
  case 0
  then show ?case by (simp add: classifyLoop_0)
next
  case (Suc n)
  obtain r where "reviews (classifyLoop Ru h fs es bk cl (Suc n)) =
      reviews (classifyLoop Ru h fs es bk cl n) @ [r]"
    using reviews_classifyStep [of Ru h fs es bk cl n] by (auto simp add: classifyLoop_Suc)
  with Suc show ?case by simp
qed

lemma reviews_classifyLoop_stable:
  "i < n \<Longrightarrow> i < m \<Longrightarrow>
   reviews (classifyLoop Ru h fs es bk cl n) ! i = reviews (classifyLoop Ru h fs es bk cl m) ! i"
proof -
  have *: "i < k \<Longrightarrow> reviews (classifyLoop Ru h fs es bk cl k) ! i =
       reviews (classifyLoop Ru h fs es bk cl (Suc i)) ! i" for k
  proof (induction k)
    case 0
    then show ?case by simp
  next
    case (Suc k)
    obtain r where r: "reviews (classifyLoop Ru h fs es bk cl (Suc k)) =
        reviews (classifyLoop Ru h fs es bk cl k) @ [r]"
      using reviews_classifyStep [of Ru h fs es bk cl k] by (auto simp add: classifyLoop_Suc)
    show ?case
    proof (cases "i = k")
      case True
      then show ?thesis by simp
    next
      case False
      with Suc.prems have "i < k" by simp
      with Suc.IH show ?thesis
        by (simp add: r nth_append length_reviews_classifyLoop)
    qed
  qed
  assume "i < n" "i < m"
  then show ?thesis using * [of n] * [of m] by simp
qed

lemma inBook_classifyLoop:
  "inBook (classifyLoop Ru h fs es bk cl n) \<longleftrightarrow> (\<forall>k < n. isBookPosition (fs ! (k + 1)) bk)"
proof (induction n)
  case 0
  then show ?case by (simp add: classifyLoop_0)
next
  case (Suc n)
  have "inBook (classifyLoop Ru h fs es bk cl (Suc n)) \<longleftrightarrow>
        inBook (classifyLoop Ru h fs es bk cl n) \<and> isBookPosition (fs ! (n + 1)) bk"
    by (simp add: classifyLoop_Suc classifyStep_def Let_def)
  with Suc show ?case by (auto simp add: less_Suc_eq)
qed

subsection \<open>The review of ply \<open>i\<close>, field by field\<close>

lemma nth_review:
  assumes "i < n"
  shows "reviews (classifyLoop Ru h fs es bk cl n) ! i =
         last (reviews (classifyStep Ru h fs es bk cl i (classifyLoop Ru h fs es bk cl i)))"
proof -
  obtain r where r: "reviews (classifyLoop Ru h fs es bk cl (Suc i)) =
      reviews (classifyLoop Ru h fs es bk cl i) @ [r]"
    using reviews_classifyStep [of Ru h fs es bk cl i] by (auto simp add: classifyLoop_Suc)
  have "reviews (classifyLoop Ru h fs es bk cl n) ! i =
        reviews (classifyLoop Ru h fs es bk cl (Suc i)) ! i"
    using assms by (rule reviews_classifyLoop_stable) simp
  also have "\<dots> = r"
    by (simp add: r nth_append length_reviews_classifyLoop)
  also have "\<dots> = last (reviews (classifyLoop Ru h fs es bk cl (Suc i)))"
    by (simp add: r)
  finally show ?thesis by (simp add: classifyLoop_Suc)
qed

lemma classification_nth:
  assumes "i < n"
  shows "classification (reviews (classifyLoop Ru h fs es bk cl n) ! i) =
         (if (\<forall>k \<le> i. isBookPosition (fs ! (k + 1)) bk) then Book
          else classifyMove (plyLoss h (map e_evaluation es) i)
                 (isSacrifice Ru (fs ! i) (fs ! (i + 1)) (m_color (h ! i) = White))
                 (punishmentAt h (map e_evaluation es) i))"
proof -
  have "(\<forall>k \<le> i. isBookPosition (fs ! (k + 1)) bk) \<longleftrightarrow>
        inBook (classifyLoop Ru h fs es bk cl i) \<and> isBookPosition (fs ! (i + 1)) bk"
    by (auto simp add: inBook_classifyLoop le_less)
  then show ?thesis
    by (simp add: nth_review [OF assms] classifyStep_def Let_def plyLoss_def punishmentAt_def)
qed

lemma classifyMove_not_Book: "classifyMove l s p \<noteq> Book"
  by (simp add: classifyMove_def)

lemma cpLoss_nth:
  assumes "i < n"
  shows "cpLoss (reviews (classifyLoop Ru h fs es bk cl n) ! i) =
         (if classification (reviews (classifyLoop Ru h fs es bk cl n) ! i) = Book then 0
          else plyLoss h (map e_evaluation es) i)"
  by (simp add: nth_review [OF assms] classifyStep_def Let_def plyLoss_def classifyMove_not_Book)

lemma bestMoveUci_nth:
  assumes "i < n"
  shows "bestMoveUci (reviews (classifyLoop Ru h fs es bk cl n) ! i) =
         (if classification (reviews (classifyLoop Ru h fs es bk cl n) ! i)
               \<in> {Inaccuracy, Mistake, Miss, Blunder, Excellent, Good}
          then e_bestMove (es ! i) else None)"
  by (simp add: nth_review [OF assms] classifyStep_def Let_def)

lemma frame_nth:
  assumes "i < n"
  shows "fen (reviews (classifyLoop Ru h fs es bk cl n) ! i) = fs ! (i + 1)"
    and "fenBefore (reviews (classifyLoop Ru h fs es bk cl n) ! i) = fs ! i"
    and "isWhite (reviews (classifyLoop Ru h fs es bk cl n) ! i) = (m_color (h ! i) = White)"
    and "evaluation (reviews (classifyLoop Ru h fs es bk cl n) ! i) = map e_evaluation es ! (i + 1)"
  by (simp_all add: nth_review [OF assms] classifyStep_def Let_def)


lemma rawCpLoss_nonneg: "0 \<le> rawCpLoss w a b"
  by (simp add: rawCpLoss_def)

lemma totalCpLoss_classifyLoop:
  "totalCpLoss (classifyLoop Ru h fs es bk cl n) =
     sum_list (map cpLoss (reviews (classifyLoop Ru h fs es bk cl n)))"
proof (induction n)
  case 0
  then show ?case by (simp add: classifyLoop_0)
next
  case (Suc n)
  then show ?case
    by (simp add: classifyLoop_Suc classifyStep_def Let_def)
qed

lemma analyzeGame_InrD:
  assumes "analyzeGame Ru ev ob pgn = Inr resp"
  obtains h es bk where "pgn_history pgn = Inr h" and "evaluateAll Ru ev h = Inr es"
    and "ob = Inr bk"
    and "moves resp = reviews (classifyLoop Ru h (gameFens Ru (newChess Ru) h) es bk
           (pgn_clocks pgn) (length h))"
    and "accuracy resp = accuracyOf
           (totalCpLoss (classifyLoop Ru h (gameFens Ru (newChess Ru) h) es bk
              (pgn_clocks pgn) (length h))) (length h)"
  using assms
  by (auto simp add: analyzeGame_def Let_def length_reviews_classifyLoop split: sum.splits)

lemma evaluateAll_InrD:
  assumes "evaluateAll Ru ev h = Inr es"
  shows "length es = length h + 1"
    and "i \<le> length h \<Longrightarrow> ev (gameFens Ru (newChess Ru) h ! i) = Inr (es ! i)"
proof -
  let ?fs = "gameFens Ru (newChess Ru) h"
  from assms have p: "promiseAll (map ev ?fs) = Inr es"
    by (simp add: evaluateAll_def)
  from promiseAll_Inr [OF p] show "length es = length h + 1"
    by (simp add: length_gameFens)
  assume "i \<le> length h"
  then have "i < length (map ev ?fs)" by (simp add: length_gameFens)
  with promiseAll_Inr [OF p] have "map ev ?fs ! i = Inr (es ! i)" by blast
  with \<open>i \<le> length h\<close> show "ev (?fs ! i) = Inr (es ! i)"
    by (simp add: length_gameFens)
qed

lemma sum_list_skip_zero:
  "\<forall>x \<in> set xs. \<not> P x \<longrightarrow> f x = (0::int) \<Longrightarrow>
   sum_list (map f xs) = sum_list (map f (filter P xs))"
  by (induction xs) auto

lemma sum_list_all_zero:
  "\<forall>x \<in> set xs. f x = (0::int) \<Longrightarrow> sum_list (map f xs) = 0"
  by (induction xs) auto

lemma accuracyOf_cases:
  "accuracyOf t n = (if n = 0 then 100 else max 0 (100 - (real_of_int t / real n) / 10))"
  by (simp add: accuracyOf_def)

lemma accuracyOf_bounds:
  assumes "0 \<le> t"
  shows "0 \<le> accuracyOf t n" and "accuracyOf t n \<le> 100"
proof -
  show "0 \<le> accuracyOf t n" by (simp add: accuracyOf_def)
  from assms have "0 \<le> real_of_int t / real n" by simp
  then show "accuracyOf t n \<le> 100" by (simp add: accuracyOf_def)
qed

lemma review_Book_iff:
  assumes "analyzeGame Ru ev (Inr book) pgn = Inr resp" and "j < length (moves resp)"
  shows "classification (moves resp ! j) = Book \<longleftrightarrow>
         (\<forall>k \<le> j. isBookPosition (fen (moves resp ! k)) book)"
proof -
  from assms(1) obtain h es bk where bk: "Inr book = (Inr bk :: error + string set)" and
    m: "moves resp = reviews (classifyLoop Ru h (gameFens Ru (newChess Ru) h) es bk
           (pgn_clocks pgn) (length h))"
    by (rule analyzeGame_InrD)
  let ?fs = "gameFens Ru (newChess Ru) h"
  from bk have [simp]: "bk = book" by simp
  have len: "length (moves resp) = length h"
    by (simp add: m length_reviews_classifyLoop)
  with assms(2) have j: "j < length h" by simp
  have "fen (moves resp ! k) = ?fs ! (k + 1)" if "k \<le> j" for k
  proof -
    from that j have "k < length h" by simp
    from frame_nth(1) [OF this] show ?thesis by (simp add: m)
  qed
  then have "(\<forall>k \<le> j. isBookPosition (fen (moves resp ! k)) book) \<longleftrightarrow>
             (\<forall>k \<le> j. isBookPosition (?fs ! (k + 1)) book)"
    by simp
  with classification_nth [OF j, of Ru h ?fs es book "pgn_clocks pgn"] show ?thesis
    by (simp add: m classifyMove_not_Book)
qed

subsection \<open>Loading the book\<close>






subsection \<open>The sacrifice test when the opponent is to move\<close>

lemma fold_keeps_zero:
  "\<forall>m \<in> set ms. f m 0 = (0::int) \<Longrightarrow> fold f ms 0 = 0"
  by (induction ms) simp_all

lemma maxMaterialLossAfterMove_zero:
  assumes "capturesTakeFrom c (if forWhite then White else Black)"
  shows "maxMaterialLossAfterMove c forWhite = 0"
proof -
  define ourColor where "ourColor = (if forWhite then White else Black)"
  let ?step = "\<lambda>m maxLoss.
                 case m_captured m of
                   None \<Rightarrow> maxLoss
                 | Some t \<Rightarrow>
                     (case chess_get c (m_to m) of
                        None \<Rightarrow> maxLoss
                      | Some captured \<Rightarrow>
                          if p_color captured = ourColor then maxLoss
                          else max maxLoss (PIECE_VALUES t))"
  from assms have all: "capturesTakeFrom c ourColor"
    by (simp add: ourColor_def)
  have "?step m 0 = 0" if m: "m \<in> set (c_moves c)" for m
  proof (cases "m_captured m")
    case None
    then show ?thesis by simp
  next
    case t: (Some t)
    show ?thesis
    proof (cases "chess_get c (m_to m)")
      case None
      with t show ?thesis by simp
    next
      case (Some pc)
      with all m t have "p_color pc = ourColor"
        by (auto simp add: capturesTakeFrom_def list_all_iff split: option.splits)
      with t Some show ?thesis by simp
    qed
  qed
  then have "fold ?step (c_moves c) 0 = 0"
    by (intro fold_keeps_zero) blast
  then show ?thesis
    unfolding maxMaterialLossAfterMove_def Let_def ourColor_def .
qed

lemma isSacrifice_opponent_to_move:
  assumes "capturesTakeFrom (fromFen Ru fenA) (if w then White else Black)"
  shows "isSacrifice Ru fenB fenA w \<longleftrightarrow>
         materialBalance (fromFen Ru fenA) w - materialBalance (fromFen Ru fenB) w \<le> -2"
  using maxMaterialLossAfterMove_zero [OF assms]
  by (simp add: isSacrifice_def Let_def)

section \<open>The tabulated game, evaluated\<close>

lemmas board_defs = boardOfRows_def pieceOfChar_def chess_get_def squareIndex_def
lemmas pos_defs = posStart_def posAfterE4_def posAfterD5_def posAfterQg4_def
lemmas fen_defs = fenStart_def fenAfterE4_def fenAfterD5_def fenAfterQg4_def
lemmas moves_defs = movesStart_def movesAfterE4_def movesAfterD5_def movesAfterQg4_def mv_def

lemma materialBalance_game:
  "materialBalance posStart w = 0" "materialBalance posAfterE4 w = 0"
  "materialBalance posAfterD5 w = 0" "materialBalance posAfterQg4 w = 0"
  by (simp_all add: materialBalance_def pos_defs board_defs)

lemma maxMaterialLossAfterMove_game:
  "maxMaterialLossAfterMove posAfterE4 True = 0"
  "maxMaterialLossAfterMove posAfterD5 False = 0"
  "maxMaterialLossAfterMove posAfterQg4 True = 0"
  by (simp_all add: maxMaterialLossAfterMove_def pos_defs moves_defs board_defs)

lemma maxRecapturableLoss_spec_Qg4: "maxRecapturableLoss_spec posAfterQg4 = 9"
  by (simp add: maxRecapturableLoss_spec_def posAfterQg4_def moves_defs)

lemma capturesTakeFrom_Qg4: "capturesTakeFrom posAfterQg4 White"
  by (simp add: capturesTakeFrom_def posAfterQg4_def moves_defs board_defs)

lemma fromFen_game:
  "fromFen gameRules fenStart = posStart" "fromFen gameRules fenAfterE4 = posAfterE4"
  "fromFen gameRules fenAfterD5 = posAfterD5" "fromFen gameRules fenAfterQg4 = posAfterQg4"
  by (simp_all add: gameRules_def fen_defs)

lemma isSacrifice_game:
  "\<not> isSacrifice gameRules fenStart fenAfterE4 True"
  "\<not> isSacrifice gameRules fenAfterE4 fenAfterD5 False"
  "\<not> isSacrifice gameRules fenAfterD5 fenAfterQg4 True"
  by (simp_all add: isSacrifice_def fromFen_game materialBalance_game maxMaterialLossAfterMove_game)

lemma isSacrifice_spec_Qg4: "isSacrifice_spec gameRules fenAfterD5 fenAfterQg4 True"
  by (simp add: isSacrifice_spec_def fromFen_game materialBalance_game
      maxRecapturableLoss_spec_Qg4)

lemma newChess_game: "newChess gameRules = posStart" "c_fen posStart = fenStart"
  by (simp_all add: gameRules_def posStart_def)

lemma gameFens_game:
  "gameFens gameRules (newChess gameRules) gameHistory =
     [fenStart, fenAfterE4, fenAfterD5, fenAfterQg4]"
  by (simp add: gameRules_def gameHistory_def mv_def pos_defs fen_defs)

lemma normalizeFen_game:
  "normalizeFen fenStart = ''rnbqkbnr/pppppppp/8/8/8/8/PPPPPPPP/RNBQKBNR w KQkq -''"
  "normalizeFen fenAfterE4 = ''rnbqkbnr/pppppppp/8/8/4P3/8/PPPP1PPP/RNBQKBNR b KQkq -''"
  "normalizeFen fenAfterD5 = ''rnbqkbnr/ppp1pppp/8/3p4/4P3/8/PPPP1PPP/RNBQKBNR w KQkq -''"
  "normalizeFen fenAfterQg4 = ''rnbqkbnr/ppp1pppp/8/3p4/4P1Q1/8/PPPP1PPP/RNB1KBNR b KQkq -''"
  by (simp_all add: normalizeFen_def fen_defs)

lemma isBookPosition_game:
  "isBookPosition fenAfterE4 bookKingsPawn" "\<not> isBookPosition fenAfterD5 bookKingsPawn"
  "\<not> isBookPosition fenAfterQg4 bookKingsPawn"
  "isBookPosition fenAfterE4 bookScandinavian" "isBookPosition fenAfterD5 bookScandinavian"
  "\<not> isBookPosition fenAfterQg4 bookScandinavian"
  "\<not> isBookPosition f {}"
  by (simp_all add: isBookPosition_def bookKingsPawn_def bookScandinavian_def normalizeFen_game)

lemma evaluateAll_game:
  "evaluateAll gameRules (evalTable gameEvals) gameHistory = Inr (map snd gameEvals)"
  "evaluateAll gameRules (evalTable gameEvalsNoBest) gameHistory = Inr (map snd gameEvalsNoBest)"
  "evaluateAll gameRules (evalTable swingEvals) gameHistory = Inr (map snd swingEvals)"
  "evaluateAll gameRules (evalTable punishEvals) gameHistory = Inr (map snd punishEvals)"
  "evaluateAll gameRules (evalTable flatEvals) gameHistory = Inr (map snd flatEvals)"
  by (simp_all add: evaluateAll_def gameFens_game evalTable_def gameEvals_def
      gameEvalsNoBest_def swingEvals_def punishEvals_def flatEvals_def fen_defs)

lemma pgn_history_game: "pgn_history gamePgn = Inr gameHistory"
  by (simp add: gamePgn_def)

lemma length_gameHistory: "length gameHistory = 3"
  by (simp add: gameHistory_def)

lemma classifyLoop_3:
  "classifyLoop Ru h fs es bk cl 3 =
     classifyStep Ru h fs es bk cl 2
       (classifyStep Ru h fs es bk cl 1
         (classifyStep Ru h fs es bk cl 0 \<lparr>reviews = [], totalCpLoss = 0, inBook = True\<rparr>))"
  by (simp add: classifyLoop_def numeral_3_eq_3 numeral_2_eq_2)

lemmas step_defs = classifyLoop_3 classifyStep_def Let_def isSacrifice_game isBookPosition_game
  rawCpLoss_def isPunishment_def classifyMove_def gameHistory_def mv_def rv_def response_def

lemma analyzeGame_game:
  "evaluateAll gameRules ev gameHistory = Inr es \<Longrightarrow>
   analyzeGame gameRules ev (Inr bk) gamePgn =
     (let st = classifyLoop gameRules gameHistory [fenStart, fenAfterE4, fenAfterD5, fenAfterQg4]
                 es bk [] 3
      in Inr (response (accuracyOf (totalCpLoss st) (length (reviews st))) (reviews st)))"
  by (simp add: analyzeGame_def gamePgn_def gameFens_game length_gameHistory Let_def response_def)

lemma analysis_scandinavian:
  "analyzeGame gameRules (evalTable gameEvals) (Inr bookScandinavian) gamePgn =
     Inr reviewScandinavian"
  by (simp add: analyzeGame_game [OF evaluateAll_game(1)] reviewScandinavian_def)
    (simp add: step_defs gameEvals_def accuracyOf_def)

lemma analysis_kingsPawn:
  "analyzeGame gameRules (evalTable gameEvals) (Inr bookKingsPawn) gamePgn =
     Inr reviewKingsPawn"
  by (simp add: analyzeGame_game [OF evaluateAll_game(1)] reviewKingsPawn_def)
    (simp add: step_defs gameEvals_def accuracyOf_def)


lemma analysis_noBest:
  "analyzeGame gameRules (evalTable gameEvalsNoBest) (Inr bookScandinavian) gamePgn =
     Inr reviewNoBest"
  by (simp add: analyzeGame_game [OF evaluateAll_game(2)] reviewNoBest_def)
    (simp add: step_defs gameEvalsNoBest_def accuracyOf_def)

lemma analysis_swing:
  "analyzeGame gameRules (evalTable swingEvals) (Inr bookKingsPawn) gamePgn = Inr reviewSwing"
  by (simp add: analyzeGame_game [OF evaluateAll_game(3)] reviewSwing_def)
    (simp add: step_defs swingEvals_def accuracyOf_def)

lemma analysis_punish:
  "analyzeGame gameRules (evalTable punishEvals) (Inr bookKingsPawn) gamePgn = Inr reviewPunish"
  by (simp add: analyzeGame_game [OF evaluateAll_game(4)] reviewPunish_def)
    (simp add: step_defs punishEvals_def accuracyOf_def)

lemma analysis_flat:
  "analyzeGame gameRules (evalTable flatEvals) (Inr {}) gamePgn = Inr reviewFlat"
  by (simp add: analyzeGame_game [OF evaluateAll_game(5)] reviewFlat_def)
    (simp add: step_defs flatEvals_def accuracyOf_def)

lemma analysis_empty:
  "analyzeGame gameRules (evalTable gameEvals) (Inr bookScandinavian) emptyPgn =
     Inr (response 100 [])"
  by (simp add: analyzeGame_def emptyPgn_def evaluateAll_def newChess_game evalTable_def
      gameEvals_def classifyLoop_0 accuracyOf_def response_def)

subsection \<open>The partition files, loaded\<close>















section \<open>The claims\<close>

lemmas review_defs = response_def rv_def reviewScandinavian_def reviewKingsPawn_def
  reviewNoBest_def reviewSwing_def reviewNoBook_def reviewPunish_def reviewFlat_def


text \<open>
  C1. The sacrifice test of a ply compares the mover's material balance before and after
  the move and subtracts \<open>maxRecapturableLoss\<close>, the largest piece value that the opponent
  can take from the mover by a capturing reply in the position after the move; the move is a
  sacrifice exactly when the result is \<open>-2\<close> or less.

  The code does not compute that maximum. \<open>maxMaterialLossAfterMove\<close> skips every capture
  whose target square holds a piece of the mover (\<open>captured.color === ourColor\<close>), and in
  the position after the move those are the only captures there are. After 1. e4 d5 2. Qg4
  the bishop on c8 can take the queen: the largest capture is worth 9 and the test in the
  words above holds, while the function returns 0 and \<open>isSacrifice\<close> is false.
\<close>

theorem sacrifice_test_at_hanging_queen:
  "capturesTakeFrom posAfterQg4 White \<and>
   maxRecapturableLoss_spec posAfterQg4 = 9 \<and>
   maxMaterialLossAfterMove posAfterQg4 True = 0 \<and>
   materialBalance posAfterD5 True = 0 \<and>
   materialBalance posAfterQg4 True = 0 \<and>
   isSacrifice_spec gameRules fenAfterD5 fenAfterQg4 True \<and>
   \<not> isSacrifice gameRules fenAfterD5 fenAfterQg4 True"
  by (simp add: capturesTakeFrom_Qg4 maxRecapturableLoss_spec_Qg4 maxMaterialLossAfterMove_game
      materialBalance_game isSacrifice_spec_Qg4 isSacrifice_game)




text \<open>
  C3, as the code has it. For every ply \<open>i \<ge> 1\<close> the punishment test is true exactly when
  the loss of the previous ply, computed again from the evaluations of the positions around
  it (and so not forced to 0 when that ply was classified Book), is at least 120 and the
  loss of the current ply before the book check is at most 15. When the previous ply was
  not classified Book these are the values of \<open>cpLoss\<close> recorded in the two reviews.
\<close>

theorem punishment_reads_raw_previous_loss:
  assumes "pgn_history pgn = Inr history"
    and "evaluateAll Ru ev history = Inr evalResults"
    and "analyzeGame Ru ev ob pgn = Inr resp"
    and "0 < i" and "i < length (moves resp)"
  shows "(punishmentAt history (map e_evaluation evalResults) i \<longleftrightarrow>
            plyLoss history (map e_evaluation evalResults) (i - 1) \<ge> 120 \<and>
            plyLoss history (map e_evaluation evalResults) i \<le> 15) \<and>
         (classification (moves resp ! (i - 1)) \<noteq> Book \<longrightarrow>
            (punishmentAt history (map e_evaluation evalResults) i \<longleftrightarrow>
               cpLoss (moves resp ! (i - 1)) \<ge> 120 \<and> cpLoss (moves resp ! i) \<le> 15))"
proof -
  let ?evs = "map e_evaluation evalResults"
  from assms(3) obtain h es bk where h: "pgn_history pgn = Inr h"
    and es: "evaluateAll Ru ev h = Inr es" and ob: "ob = Inr bk" and
    m: "moves resp = reviews (classifyLoop Ru h (gameFens Ru (newChess Ru) h) es bk
           (pgn_clocks pgn) (length h))"
    by (rule analyzeGame_InrD)
  from h assms(1) have [simp]: "h = history" by simp
  from es assms(2) have [simp]: "es = evalResults" by simp
  have len: "length (moves resp) = length history"
    by (simp add: m length_reviews_classifyLoop)
  with assms have i: "i < length history" and p: "i - 1 < length history" by simp_all
  from \<open>0 < i\<close> have raw: "punishmentAt history ?evs i \<longleftrightarrow>
      plyLoss history ?evs (i - 1) \<ge> 120 \<and> plyLoss history ?evs i \<le> 15"
    by (simp add: punishmentAt_def isPunishment_def plyLoss_def rawCpLoss_def Let_def)
  have rec: "punishmentAt history ?evs i \<longleftrightarrow>
      cpLoss (moves resp ! (i - 1)) \<ge> 120 \<and> cpLoss (moves resp ! i) \<le> 15"
    if nb: "classification (moves resp ! (i - 1)) \<noteq> Book"
  proof -
    let ?fs = "gameFens Ru (newChess Ru) history"
    have "\<not> (\<forall>k \<le> i - 1. isBookPosition (?fs ! (k + 1)) bk)"
      using classification_nth [OF p, of Ru history ?fs evalResults bk "pgn_clocks pgn"] nb
      by (simp add: m split: if_splits)
    then have "\<not> (\<forall>k \<le> i. isBookPosition (?fs ! (k + 1)) bk)"
      by (meson diff_le_self le_trans)
    then have nb': "classification (moves resp ! i) \<noteq> Book"
      using classification_nth [OF i, of Ru history ?fs evalResults bk "pgn_clocks pgn"]
      by (simp add: m classifyMove_not_Book)
    have "cpLoss (moves resp ! (i - 1)) = plyLoss history ?evs (i - 1)"
      using cpLoss_nth [OF p, of Ru history ?fs evalResults bk "pgn_clocks pgn"] nb
      by (simp add: m)
    moreover have "cpLoss (moves resp ! i) = plyLoss history ?evs i"
      using cpLoss_nth [OF i, of Ru history ?fs evalResults bk "pgn_clocks pgn"] nb'
      by (simp add: m)
    ultimately show ?thesis
      using raw by simp
  qed
  from raw rec show ?thesis by blast
qed

theorem punishment_reads_raw_previous_loss_witness:
  "punishmentAt gameHistory (map e_evaluation (map snd punishEvals)) 2 \<and>
   classification (moves reviewPunish ! 1) = Miss \<and>
   cpLoss (moves reviewPunish ! 1) = 170 \<and>
   cpLoss (moves reviewPunish ! 2) = 10 \<and>
   classification (moves reviewPunish ! 2) = Great"
proof -
  have i: "(0::nat) < 2" by simp
  have l: "2 < length (moves reviewPunish)" by (simp add: review_defs)
  from punishment_reads_raw_previous_loss
    [OF pgn_history_game evaluateAll_game(4) analysis_punish i l]
  show ?thesis
    by (simp add: review_defs punishmentAt_def isPunishment_def plyLoss_def rawCpLoss_def
        punishEvals_def gameHistory_def mv_def)
qed

theorem punishment_after_book_move_counterexample:
  "analyzeGame gameRules (evalTable swingEvals) (Inr bookKingsPawn) gamePgn = Inr reviewSwing \<and>
   classification (moves reviewSwing ! 0) = Book \<and>
   cpLoss (moves reviewSwing ! 0) = 0 \<and>
   cpLoss (moves reviewSwing ! 1) = 0 \<and>
   punishmentAt gameHistory (map e_evaluation (map snd swingEvals)) 1 \<and>
   classification (moves reviewSwing ! 1) = Great \<and>
   \<not> (punishmentAt gameHistory (map e_evaluation (map snd swingEvals)) 1 \<longleftrightarrow>
        cpLoss (moves reviewSwing ! 0) \<ge> 120 \<and> cpLoss (moves reviewSwing ! 1) \<le> 15)"
proof -
  have "classification (moves reviewSwing ! 0) = Book \<and>
   cpLoss (moves reviewSwing ! 0) = 0 \<and>
   cpLoss (moves reviewSwing ! 1) = 0 \<and>
   punishmentAt gameHistory (map e_evaluation (map snd swingEvals)) 1 \<and>
   classification (moves reviewSwing ! 1) = Great \<and>
   \<not> (punishmentAt gameHistory (map e_evaluation (map snd swingEvals)) 1 \<longleftrightarrow>
        cpLoss (moves reviewSwing ! 0) \<ge> 120 \<and> cpLoss (moves reviewSwing ! 1) \<le> 15)"
    by (simp add: review_defs punishmentAt_def isPunishment_def plyLoss_def
        rawCpLoss_def swingEvals_def gameHistory_def mv_def)
  with analysis_swing show ?thesis
    by (rule conjI)
qed

text \<open>
  C4, as the code has it. For every MoveReview, \<open>bestMoveUci\<close> is the best move that the
  evaluator returned for the position before the move, which may be absent, when the
  classification is one of Inaccuracy, Mistake, Miss, Blunder, Excellent and Good, and is
  absent for every other classification. So a \<open>bestMoveUci\<close> that is present implies one of
  these six classifications, and the converse holds only when the evaluator returned a
  best move.
\<close>

theorem bestMoveUci_from_evaluator:
  assumes "analyzeGame Ru ev ob pgn = Inr resp" and "i < length (moves resp)"
  shows "\<exists>e. ev (fenBefore (moves resp ! i)) = Inr e \<and>
             bestMoveUci (moves resp ! i) =
               (if classification (moves resp ! i)
                     \<in> {Inaccuracy, Mistake, Miss, Blunder, Excellent, Good}
                then e_bestMove e else None) \<and>
             (bestMoveUci (moves resp ! i) \<noteq> None \<longrightarrow>
                classification (moves resp ! i)
                  \<in> {Inaccuracy, Mistake, Miss, Blunder, Excellent, Good})"
proof -
  from assms(1) obtain h es bk where
    es: "evaluateAll Ru ev h = Inr es" and
    m: "moves resp = reviews (classifyLoop Ru h (gameFens Ru (newChess Ru) h) es bk
           (pgn_clocks pgn) (length h))"
    by (rule analyzeGame_InrD)
  let ?fs = "gameFens Ru (newChess Ru) h"
  have len: "length (moves resp) = length h"
    by (simp add: m length_reviews_classifyLoop)
  with assms(2) have i: "i < length h" by simp
  then have "ev (?fs ! i) = Inr (es ! i)"
    by (intro evaluateAll_InrD(2) [OF es]) simp
  moreover have "fenBefore (moves resp ! i) = ?fs ! i"
    using frame_nth(2) [OF i] by (simp add: m)
  moreover have best: "bestMoveUci (moves resp ! i) =
      (if classification (moves resp ! i) \<in> {Inaccuracy, Mistake, Miss, Blunder, Excellent, Good}
       then e_bestMove (es ! i) else None)"
    using bestMoveUci_nth [OF i] by (simp add: m)
  moreover from best have "bestMoveUci (moves resp ! i) \<noteq> None \<longrightarrow>
      classification (moves resp ! i) \<in> {Inaccuracy, Mistake, Miss, Blunder, Excellent, Good}"
    by (simp split: if_splits)
  ultimately show ?thesis by simp
qed

theorem bestMoveUci_from_evaluator_witness:
  "evalTable gameEvals (fenBefore (moves reviewScandinavian ! 2)) =
     Inr \<lparr>e_evaluation = 60, e_bestMove = Some ''e4d5''\<rparr> \<and>
   classification (moves reviewScandinavian ! 2) = Blunder \<and>
   bestMoveUci (moves reviewScandinavian ! 2) = Some ''e4d5'' \<and>
   classification (moves reviewScandinavian ! 1) = Book \<and>
   bestMoveUci (moves reviewScandinavian ! 1) = None"
proof -
  have l: "2 < length (moves reviewScandinavian)" "1 < length (moves reviewScandinavian)"
    by (simp_all add: review_defs)
  from bestMoveUci_from_evaluator [OF analysis_scandinavian l(1)]
    bestMoveUci_from_evaluator [OF analysis_scandinavian l(2)]
  show ?thesis
    by (simp add: review_defs evalTable_def gameEvals_def fen_defs)
qed

theorem bestMoveUci_absent_for_blunder_counterexample:
  "analyzeGame gameRules (evalTable gameEvalsNoBest) (Inr bookScandinavian) gamePgn =
     Inr reviewNoBest \<and>
   evalTable gameEvalsNoBest (fenBefore (moves reviewNoBest ! 2)) =
     Inr \<lparr>e_evaluation = 60, e_bestMove = None\<rparr> \<and>
   classification (moves reviewNoBest ! 2) = Blunder \<and>
   bestMoveUci (moves reviewNoBest ! 2) = None"
proof -
  have "evalTable gameEvalsNoBest (fenBefore (moves reviewNoBest ! 2)) =
     Inr \<lparr>e_evaluation = 60, e_bestMove = None\<rparr> \<and>
   classification (moves reviewNoBest ! 2) = Blunder \<and>
   bestMoveUci (moves reviewNoBest ! 2) = None"
    by (simp add: review_defs evalTable_def gameEvalsNoBest_def fen_defs)
  with analysis_noBest show ?thesis
    by (rule conjI)
qed



text \<open>
  C6. The accuracy is \<open>max 0 (100 - (sum of cpLoss / number of moves) / 10)\<close>, and 100 for
  a game without moves. Every recorded \<open>cpLoss\<close> is non-negative, the accuracy lies between
  0 and 100, and a game in which every \<open>cpLoss\<close> is 0 has accuracy 100. The same holds of
  the aggregation formula by itself for any non-negative total.
\<close>

theorem accuracy_formula_and_bounds:
  "(analyzeGame Ru ev ob pgn = Inr resp \<longrightarrow>
      accuracy resp =
        (if moves resp = [] then 100
         else max 0 (100 - (real_of_int (sum_list (map cpLoss (moves resp))) /
                              real (length (moves resp))) / 10)) \<and>
      (\<forall>r \<in> set (moves resp). 0 \<le> cpLoss r) \<and>
      0 \<le> accuracy resp \<and> accuracy resp \<le> 100 \<and>
      ((\<forall>r \<in> set (moves resp). cpLoss r = 0) \<longrightarrow> accuracy resp = 100)) \<and>
   (0 \<le> t \<longrightarrow> 0 \<le> accuracyOf t n \<and> accuracyOf t n \<le> 100) \<and>
   accuracyOf t 0 = 100 \<and> accuracyOf 0 n = 100"
proof -
  have A: "accuracy resp =
        (if moves resp = [] then 100
         else max 0 (100 - (real_of_int (sum_list (map cpLoss (moves resp))) /
                              real (length (moves resp))) / 10)) \<and>
      (\<forall>r \<in> set (moves resp). 0 \<le> cpLoss r) \<and>
      0 \<le> accuracy resp \<and> accuracy resp \<le> 100 \<and>
      ((\<forall>r \<in> set (moves resp). cpLoss r = 0) \<longrightarrow> accuracy resp = 100)"
    if run: "analyzeGame Ru ev ob pgn = Inr resp"
  proof -
    from run obtain h es bk where
      m: "moves resp = reviews (classifyLoop Ru h (gameFens Ru (newChess Ru) h) es bk
             (pgn_clocks pgn) (length h))"
      and a: "accuracy resp = accuracyOf
             (totalCpLoss (classifyLoop Ru h (gameFens Ru (newChess Ru) h) es bk
                (pgn_clocks pgn) (length h))) (length h)"
      by (rule analyzeGame_InrD)
    have len: "length (moves resp) = length h"
      by (simp add: m length_reviews_classifyLoop)
    have acc: "accuracy resp = accuracyOf (sum_list (map cpLoss (moves resp))) (length (moves resp))"
      by (simp add: a len totalCpLoss_classifyLoop m [symmetric])
    have nonneg: "\<forall>r \<in> set (moves resp). 0 \<le> cpLoss r"
    proof
      fix r assume "r \<in> set (moves resp)"
      then obtain i where i: "i < length h" and r: "r = moves resp ! i"
        by (auto simp add: in_set_conv_nth len)
      from cpLoss_nth [OF i, of Ru h "gameFens Ru (newChess Ru) h" es bk "pgn_clocks pgn"]
      show "0 \<le> cpLoss r"
        by (simp add: r m plyLoss_def rawCpLoss_nonneg)
    qed
    then have tot: "0 \<le> sum_list (map cpLoss (moves resp))"
      by (intro sum_list_nonneg) auto
    have zero: "accuracy resp = 100" if "\<forall>r \<in> set (moves resp). cpLoss r = 0"
    proof -
      from that have "sum_list (map cpLoss (moves resp)) = 0"
        by (rule sum_list_all_zero)
      then show ?thesis by (simp add: acc accuracyOf_def)
    qed
    from acc have formula: "accuracy resp =
        (if moves resp = [] then 100
         else max 0 (100 - (real_of_int (sum_list (map cpLoss (moves resp))) /
                              real (length (moves resp))) / 10))"
      by (simp add: accuracyOf_cases)
    have "0 \<le> accuracy resp" "accuracy resp \<le> 100"
      using accuracyOf_bounds [OF tot] by (simp_all add: acc)
    with formula nonneg zero show ?thesis
      by blast
  qed
  have B: "0 \<le> t \<longrightarrow> 0 \<le> accuracyOf t n \<and> accuracyOf t n \<le> 100"
    using accuracyOf_bounds by blast
  have C: "accuracyOf t 0 = 100" "accuracyOf 0 n = 100"
    by (simp_all add: accuracyOf_def)
  from A B C show ?thesis by blast
qed

theorem accuracy_formula_and_bounds_witness:
  "accuracy reviewScandinavian = 214 / 3 \<and>
   sum_list (map cpLoss (moves reviewScandinavian)) = 860 \<and>
   accuracyOf 860 3 = 214 / 3 \<and>
   analyzeGame gameRules (evalTable gameEvals) (Inr bookScandinavian) emptyPgn =
     Inr (response 100 []) \<and>
   map cpLoss (moves reviewFlat) = [0, 0, 0] \<and>
   map classification (moves reviewFlat) = [Best, Best, Best] \<and>
   accuracy reviewFlat = 100"
  using accuracy_formula_and_bounds [of gameRules "evalTable gameEvals" "Inr bookScandinavian"
      gamePgn reviewScandinavian 860 3]
    accuracy_formula_and_bounds [of gameRules "evalTable gameEvals" "Inr bookScandinavian"
      emptyPgn "response 100 []" 0 0]
    accuracy_formula_and_bounds [of gameRules "evalTable flatEvals" "Inr {}"
      gamePgn reviewFlat 0 3]
    analysis_scandinavian analysis_empty analysis_flat
  by (simp add: review_defs accuracyOf_def)

text \<open>
  C7. Every MoveReview classified Book reports \<open>cpLoss = 0\<close>, whatever the evaluator
  returned, so the sum of \<open>cpLoss\<close> over all moves is the sum over the moves that are not
  classified Book.
\<close>

theorem book_move_reports_zero_loss:
  assumes "analyzeGame Ru ev ob pgn = Inr resp"
  shows "(\<forall>r \<in> set (moves resp). classification r = Book \<longrightarrow> cpLoss r = 0) \<and>
         sum_list (map cpLoss (moves resp)) =
           sum_list (map cpLoss (filter (\<lambda>r. classification r \<noteq> Book) (moves resp)))"
proof -
  from assms obtain h es bk where
    m: "moves resp = reviews (classifyLoop Ru h (gameFens Ru (newChess Ru) h) es bk
           (pgn_clocks pgn) (length h))"
    by (rule analyzeGame_InrD)
  have len: "length (moves resp) = length h"
    by (simp add: m length_reviews_classifyLoop)
  have zero: "\<forall>r \<in> set (moves resp). classification r = Book \<longrightarrow> cpLoss r = 0"
  proof (intro ballI impI)
    fix r assume "r \<in> set (moves resp)" and b: "classification r = Book"
    then obtain i where i: "i < length h" and r: "r = moves resp ! i"
      by (auto simp add: in_set_conv_nth len)
    from cpLoss_nth [OF i] b show "cpLoss r = 0"
      by (simp add: r m)
  qed
  then have "sum_list (map cpLoss (moves resp)) =
      sum_list (map cpLoss (filter (\<lambda>r. classification r \<noteq> Book) (moves resp)))"
    by (intro sum_list_skip_zero) simp
  with zero show ?thesis by blast
qed

theorem book_move_reports_zero_loss_witness:
  "plyLoss gameHistory (map e_evaluation (map snd gameEvals)) 1 = 25 \<and>
   classification (moves reviewScandinavian ! 1) = Book \<and>
   cpLoss (moves reviewScandinavian ! 1) = 0 \<and>
   sum_list (map cpLoss (moves reviewScandinavian)) = 860"
  using book_move_reports_zero_loss [OF analysis_scandinavian]
  by (simp add: review_defs plyLoss_def rawCpLoss_def gameEvals_def gameHistory_def mv_def)

text \<open>
  C8. Book status is monotone: once the position that results from a ply is not recognised
  as a book position, neither that ply nor any later ply of the game is classified Book.
\<close>

theorem book_status_monotone:
  assumes "analyzeGame Ru ev (Inr book) pgn = Inr resp"
    and "i \<le> j" and "j < length (moves resp)"
    and "\<not> isBookPosition (fen (moves resp ! i)) book"
  shows "classification (moves resp ! j) \<noteq> Book"
  using review_Book_iff [OF assms(1,3)] assms(2,4) by blast

theorem book_status_monotone_witness:
  "\<not> isBookPosition (fen (moves reviewKingsPawn ! 1)) bookKingsPawn \<and>
   classification (moves reviewKingsPawn ! 0) = Book \<and>
   classification (moves reviewKingsPawn ! 1) \<noteq> Book \<and>
   classification (moves reviewKingsPawn ! 2) \<noteq> Book"
proof -
  have le: "(1::nat) \<le> 2" by simp
  have l: "2 < length (moves reviewKingsPawn)"
    by (simp add: review_defs)
  have miss: "\<not> isBookPosition (fen (moves reviewKingsPawn ! 1)) bookKingsPawn"
    by (simp add: review_defs isBookPosition_game)
  from book_status_monotone [OF analysis_kingsPawn le l miss] miss
  show ?thesis
    by (simp add: review_defs)
qed

text \<open>
  C9. While in Exploration, \<open>extendVariation\<close> keeps the nodes \<open>0..cursor\<close>, drops the
  nodes after the cursor, appends the new node (its evaluation still unknown) and moves the
  cursor onto it; nothing else of the state changes.
\<close>

theorem extendVariation_truncate_append:
  assumes "inExploration st"
  shows "variationMoves (extendVariation s f st) =
           take (nat (variationIndex st) + 1) (variationMoves st) @ [node s f] \<and>
         variationIndex (extendVariation s f st) = variationIndex st + 1 \<and>
         variationIndex (extendVariation s f st) =
           int (length (variationMoves (extendVariation s f st))) - 1 \<and>
         (\<forall>i \<le> nat (variationIndex st).
           variationMoves (extendVariation s f st) ! i = variationMoves st ! i) \<and>
         extendVariation s f st =
           st\<lparr>variationMoves := variationMoves (extendVariation s f st),
              variationIndex := variationIndex (extendVariation s f st)\<rparr>"
proof -
  let ?c = "variationIndex st" and ?xs = "variationMoves st"
  from assms have c: "0 \<le> ?c" "?c < int (length ?xs)"
    by (simp_all add: inExploration_def)
  then have sl: "slice0 ?xs (?c + 1) = take (nat ?c + 1) ?xs"
    by (simp add: slice0_in_range nat_add_distrib)
  have nodes: "variationMoves (extendVariation s f st) = take (nat ?c + 1) ?xs @ [node s f]"
    by (simp add: extendVariation_def sl node_def)
  have cursor: "variationIndex (extendVariation s f st) = ?c + 1"
    by (simp add: extendVariation_def)
  from c have len: "length (take (nat ?c + 1) ?xs) = nat ?c + 1"
    by simp
  have last: "variationIndex (extendVariation s f st) =
          int (length (variationMoves (extendVariation s f st))) - 1"
    using c by (simp add: nodes len cursor)
  have kept: "\<forall>i \<le> nat ?c. variationMoves (extendVariation s f st) ! i = ?xs ! i"
    using c by (auto simp add: nodes nth_append)
  have frame: "extendVariation s f st =
          st\<lparr>variationMoves := variationMoves (extendVariation s f st),
             variationIndex := variationIndex (extendVariation s f st)\<rparr>"
    by (simp add: extendVariation_def)
  from nodes cursor last kept frame show ?thesis
    by blast
qed

theorem extendVariation_truncate_append_witness:
  "inExploration lineABC \<and>
   variationMoves lineABC = [node ''a'' ''fen-a'', node ''b'' ''fen-b'', node ''c'' ''fen-c''] \<and>
   variationIndex lineABC = 1 \<and>
   variationMoves (extendVariation ''d'' ''fen-d'' lineABC) =
     [node ''a'' ''fen-a'', node ''b'' ''fen-b'', node ''d'' ''fen-d''] \<and>
   variationIndex (extendVariation ''d'' ''fen-d'' lineABC) = 2"
  using extendVariation_truncate_append [OF inExploration_lineABC, of "''d''" "''fen-d''"]
    inExploration_lineABC
  by (simp add: lineABC_value)

text \<open>
  C10. \<open>updateVariationEval idx v\<close> with \<open>idx\<close> outside \<open>[0, len - 1]\<close> returns the state
  unchanged. With \<open>idx\<close> inside, the node list keeps its length, node \<open>idx\<close> keeps its
  \<open>san\<close> and \<open>fen\<close> and gets the evaluation \<open>v\<close>, every other node is the same, and the
  cursor, the base index, the main-line pointer and the remaining cells are the same.
\<close>

theorem updateVariationEval_frame:
  "(idx < 0 \<or> int (length (variationMoves st)) \<le> idx \<longrightarrow>
      updateVariationEval idx v st = st) \<and>
   (0 \<le> idx \<and> idx < int (length (variationMoves st)) \<longrightarrow>
      length (variationMoves (updateVariationEval idx v st)) = length (variationMoves st) \<and>
      variationMoves (updateVariationEval idx v st) ! nat idx =
        \<lparr>v_san = v_san (variationMoves st ! nat idx),
         v_fen = v_fen (variationMoves st ! nat idx),
         v_eval = Some v\<rparr> \<and>
      (\<forall>j < length (variationMoves st). j \<noteq> nat idx \<longrightarrow>
         variationMoves (updateVariationEval idx v st) ! j = variationMoves st ! j)) \<and>
   variationIndex (updateVariationEval idx v st) = variationIndex st \<and>
   variationBaseIndex (updateVariationEval idx v st) = variationBaseIndex st \<and>
   currentMoveIndex (updateVariationEval idx v st) = currentMoveIndex st \<and>
   isVariation (updateVariationEval idx v st) = isVariation st \<and>
   orientation (updateVariationEval idx v st) = orientation st \<and>
   showTimestamps (updateVariationEval idx v st) = showTimestamps st"
  by (auto simp add: updateVariationEval_def Let_def)

theorem updateVariationEval_frame_witness:
  "updateVariationEval 3 40 lineABC = lineABC \<and>
   updateVariationEval (-1) 40 lineABC = lineABC \<and>
   variationMoves (updateVariationEval 2 40 lineABC) =
     [node ''a'' ''fen-a'', node ''b'' ''fen-b'',
      \<lparr>v_san = ''c'', v_fen = ''fen-c'', v_eval = Some 40\<rparr>] \<and>
   variationIndex (updateVariationEval 2 40 lineABC) = 1"
  using updateVariationEval_frame [of 3 lineABC 40]
    updateVariationEval_frame [of "-1" lineABC 40]
    updateVariationEval_frame [of 2 lineABC 40]
  by (simp add: lineABC_value updateVariationEval_def node_def Let_def)

end
